theory Spec2Isabelle
  imports Complex_Main "HOL-Library.Sublist"
begin

section \<open>JavaScript strings\<close>

text \<open>
  A JavaScript string is modelled as a \<^typ>\<open>string\<close>: a list of characters with
  code points 0 to 255. Header values reach the service decoded as Latin-1, so
  for them this is exact; file names and texts are covered up to code point 255.
\<close>

text \<open>\<^verbatim>\<open>String.prototype.toLowerCase\<close> on these code points: the ASCII capitals and the
  Latin-1 capitals (0xC0 to 0xDE without the multiplication sign 0xD7) move up by 32.\<close>

definition upperCaseChars :: string where
  "upperCaseChars = ''ABCDEFGHIJKLMNOPQRSTUVWXYZ'' @
     [CHR 0xC0, CHR 0xC1, CHR 0xC2, CHR 0xC3, CHR 0xC4, CHR 0xC5, CHR 0xC6, CHR 0xC7,
      CHR 0xC8, CHR 0xC9, CHR 0xCA, CHR 0xCB, CHR 0xCC, CHR 0xCD, CHR 0xCE, CHR 0xCF,
      CHR 0xD0, CHR 0xD1, CHR 0xD2, CHR 0xD3, CHR 0xD4, CHR 0xD5, CHR 0xD6,
      CHR 0xD8, CHR 0xD9, CHR 0xDA, CHR 0xDB, CHR 0xDC, CHR 0xDD, CHR 0xDE]"

definition lowerCaseChars :: string where
  "lowerCaseChars = ''abcdefghijklmnopqrstuvwxyz'' @
     [CHR 0xE0, CHR 0xE1, CHR 0xE2, CHR 0xE3, CHR 0xE4, CHR 0xE5, CHR 0xE6, CHR 0xE7,
      CHR 0xE8, CHR 0xE9, CHR 0xEA, CHR 0xEB, CHR 0xEC, CHR 0xED, CHR 0xEE, CHR 0xEF,
      CHR 0xF0, CHR 0xF1, CHR 0xF2, CHR 0xF3, CHR 0xF4, CHR 0xF5, CHR 0xF6,
      CHR 0xF8, CHR 0xF9, CHR 0xFA, CHR 0xFB, CHR 0xFC, CHR 0xFD, CHR 0xFE]"

definition toLowerCase_char :: "char \<Rightarrow> char" where
  "toLowerCase_char c =
     (case map_of (zip upperCaseChars lowerCaseChars) c of Some l \<Rightarrow> l | None \<Rightarrow> c)"

definition toLowerCase :: "string \<Rightarrow> string" where
  "toLowerCase s = map toLowerCase_char s"

text \<open>\<^verbatim>\<open>s.startsWith(p)\<close>, \<^verbatim>\<open>s.includes(p)\<close> (what a pattern without anchors tests) and
  \<^verbatim>\<open>s.endsWith(p)\<close> (what a pattern ending in \<^verbatim>\<open>$\<close> tests).\<close>

fun startsWith :: "string \<Rightarrow> string \<Rightarrow> bool" where
  "startsWith s [] = True"
| "startsWith [] (p # ps) = False"
| "startsWith (c # cs) (p # ps) = (c = p \<and> startsWith cs ps)"

fun str_includes :: "string \<Rightarrow> string \<Rightarrow> bool" where
  "str_includes [] p = (p = [])"
| "str_includes (c # cs) p = (startsWith (c # cs) p \<or> str_includes cs p)"

definition endsWith :: "string \<Rightarrow> string \<Rightarrow> bool" where
  "endsWith s p = startsWith (rev s) (rev p)"

text \<open>\<^verbatim>\<open>s.lastIndexOf(c)\<close> for a single character; \<^const>\<open>None\<close> stands for -1.\<close>

fun lastIndexOf :: "string \<Rightarrow> char \<Rightarrow> nat option" where
  "lastIndexOf [] c = None"
| "lastIndexOf (x # xs) c =
     (case lastIndexOf xs c of
        Some i \<Rightarrow> Some (Suc i)
      | None \<Rightarrow> if x = c then Some 0 else None)"

section \<open>Changed files and file triage\<close>

text \<open>A changed file as the repository service lists it (\<^verbatim>\<open>pulls.listFiles\<close>).
  \<open>changes\<close> is the service's total of added and deleted lines.\<close>

record changed_file =
  filename :: string
  status :: string
  additions :: int
  deletions :: int
  changes :: int
  patch :: "string option"
  binary :: bool

text \<open>
  \<^verbatim>\<open>parseInt(process.env.X) || d\<close>. The first argument is what \<^verbatim>\<open>parseInt\<close> returned:
  \<^const>\<open>None\<close> is NaN (the variable is unset or does not start with a number).
  NaN and 0 are falsy, so both give the default; every other number is kept,
  a negative one too.
\<close>

definition parseInt_or :: "int option \<Rightarrow> int \<Rightarrow> int" where
  "parseInt_or v d = (case v of None \<Rightarrow> d | Some n \<Rightarrow> if n = 0 then d else n)"

text \<open>\<^verbatim>\<open>xs.slice(0, e)\<close>: a negative end counts from the end of the array.\<close>

definition slice0 :: "'a list \<Rightarrow> int \<Rightarrow> 'a list" where
  "slice0 xs e = (if e < 0 then take (nat (int (length xs) + e)) xs else take (nat e) xs)"

definition reviewableExtensions :: "string list" where
  "reviewableExtensions =
     [''.js'', ''.jsx'', ''.ts'', ''.tsx'',
      ''.py'', ''.java'', ''.go'', ''.rs'',
      ''.php'', ''.rb'', ''.swift'', ''.kt'',
      ''.c'', ''.cpp'', ''.h'', ''.hpp'',
      ''.cs'', ''.scala'', ''.clj'']"

datatype pattern = Anywhere string | AtEnd string

fun test :: "pattern \<Rightarrow> string \<Rightarrow> bool" where
  "test (Anywhere p) s = str_includes s p"
| "test (AtEnd p) s = endsWith s p"

definition skipPatterns :: "pattern list" where
  "skipPatterns =
     [Anywhere ''node_modules'',
      Anywhere ''.min.'',
      Anywhere ''.bundle.'',
      AtEnd ''.lock'',
      AtEnd ''package-lock.json'',
      AtEnd ''yarn.lock'',
      AtEnd ''.log'',
      AtEnd ''.md'',
      AtEnd ''.txt'',
      AtEnd ''.json'',
      AtEnd ''.xml'',
      AtEnd ''.yml'',
      AtEnd ''.yaml'']"

text \<open>The callback of \<^verbatim>\<open>files.filter\<close> in \<^verbatim>\<open>filterReviewableFiles\<close>.\<close>

definition reviewable :: "int \<Rightarrow> changed_file \<Rightarrow> bool" where
  "reviewable maxLinesPerFile file =
     (if status file = ''removed'' then False
      else if list_ex (\<lambda>pattern. test pattern (filename file)) skipPatterns then False
      else if \<not> list_ex (\<lambda>ext. endsWith (toLowerCase (filename file)) ext) reviewableExtensions
        then False
      else if changes file > maxLinesPerFile then False
      else True)"

definition maxFiles :: "int option \<Rightarrow> int" where
  "maxFiles MAX_FILES_TO_REVIEW = parseInt_or MAX_FILES_TO_REVIEW 20"

definition maxLinesPerFile :: "int option \<Rightarrow> int" where
  "maxLinesPerFile MAX_LINES_PER_FILE = parseInt_or MAX_LINES_PER_FILE 1000"

text \<open>\<^verbatim>\<open>PullRequestHandler.filterReviewableFiles\<close>; the two settings are passed in as
  \<^verbatim>\<open>parseInt\<close> read them from the environment.\<close>

definition filterReviewableFiles ::
  "int option \<Rightarrow> int option \<Rightarrow> changed_file list \<Rightarrow> changed_file list" where
  "filterReviewableFiles MAX_FILES_TO_REVIEW MAX_LINES_PER_FILE files =
     slice0 (filter (reviewable (maxLinesPerFile MAX_LINES_PER_FILE)) files)
            (maxFiles MAX_FILES_TO_REVIEW)"

section \<open>JavaScript values and exceptions\<close>

text \<open>
  A decoded JSON value. An object holds its own properties as a list of pairs, each
  key once (for a key written twice \<^verbatim>\<open>JSON.parse\<close> keeps the later value). Numbers are
  the finite values. A value of type \<open>json option\<close> is a JavaScript value that may be
  \<^verbatim>\<open>undefined\<close> (\<^const>\<open>None\<close>).
\<close>

datatype json =
    JNull
  | JBool bool
  | JNum rat
  | JStr string
  | JArr "json list"
  | JObj "(string \<times> json) list"

datatype exn =
    TypeError string
  | RangeError string
  | SyntaxError string
  | Error string

text \<open>A computation that may throw returns \<^typ>\<open>exn + 'a\<close>; \<^const>\<open>Inl\<close> is the throw.\<close>

definition bindE :: "exn + 'a \<Rightarrow> ('a \<Rightarrow> exn + 'b) \<Rightarrow> exn + 'b" where
  "bindE m f = (case m of Inl e \<Rightarrow> Inl e | Inr v \<Rightarrow> f v)"

text \<open>\<^verbatim>\<open>try { body } catch (error) { handler }\<close>.\<close>

definition try_catch :: "exn + 'a \<Rightarrow> (exn \<Rightarrow> exn + 'a) \<Rightarrow> exn + 'a" where
  "try_catch body handler = (case body of Inl e \<Rightarrow> handler e | Inr v \<Rightarrow> Inr v)"

text \<open>Truthiness: \<^verbatim>\<open>undefined\<close>, \<^verbatim>\<open>null\<close>, \<^verbatim>\<open>false\<close>, 0 and the empty string are falsy.\<close>

fun truthy :: "json option \<Rightarrow> bool" where
  "truthy None = False"
| "truthy (Some JNull) = False"
| "truthy (Some (JBool b)) = b"
| "truthy (Some (JNum n)) = (n \<noteq> 0)"
| "truthy (Some (JStr s)) = (s \<noteq> [])"
| "truthy (Some (JArr xs)) = True"
| "truthy (Some (JObj ps)) = True"

text \<open>
  \<^verbatim>\<open>v.k\<close> for a decoded value \<open>v\<close> and one of the keys this program reads
  (\<^verbatim>\<open>comments\<close>, \<^verbatim>\<open>line\<close>, \<^verbatim>\<open>body\<close>, \<^verbatim>\<open>severity\<close>, \<^verbatim>\<open>category\<close>, \<^verbatim>\<open>suggestion\<close>): reading a
  property of \<^verbatim>\<open>null\<close> throws, an object gives its own property, and every other value
  gives \<^verbatim>\<open>undefined\<close>, since no built-in prototype has a member of these names.
\<close>

fun get_prop :: "json \<Rightarrow> string \<Rightarrow> exn + json option" where
  "get_prop JNull k = Inl (TypeError ''Cannot read properties of null'')"
| "get_prop (JObj ps) k = Inr (map_of ps k)"
| "get_prop v k = Inr None"

fun isArray :: "json option \<Rightarrow> bool" where
  "isArray (Some (JArr xs)) = True"
| "isArray v = False"

fun array_elements :: "json option \<Rightarrow> json list" where
  "array_elements (Some (JArr xs)) = xs"
| "array_elements v = []"

text \<open>\<^verbatim>\<open>xs.map(f)\<close> for a callback that may throw: the first throw ends the loop.\<close>

fun array_map :: "('a \<Rightarrow> exn + 'b) \<Rightarrow> 'a list \<Rightarrow> exn + 'b list" where
  "array_map f [] = Inr []"
| "array_map f (x # xs) =
     (case f x of
        Inl e \<Rightarrow> Inl e
      | Inr y \<Rightarrow> (case array_map f xs of Inl e \<Rightarrow> Inl e | Inr ys \<Rightarrow> Inr (y # ys)))"

text \<open>\<^verbatim>\<open>a || d\<close> where \<open>d\<close> is a string literal.\<close>

fun or_else :: "json option \<Rightarrow> string \<Rightarrow> json" where
  "or_else None d = JStr d"
| "or_else (Some v) d = (if truthy (Some v) then v else JStr d)"

section \<open>Webhook signature validation\<close>

text \<open>What the middleware does with the request: hand it on (\<^verbatim>\<open>next()\<close>) or answer it
  (\<^verbatim>\<open>res.status(n).json({ error: msg })\<close>).\<close>

datatype response = Next | Respond nat string

text \<open>\<^verbatim>\<open>Buffer.from(s)\<close>: the UTF-8 bytes of a string of code points up to 255.\<close>

definition utf8 :: "char \<Rightarrow> nat list" where
  "utf8 c = (let n = (of_char c :: nat)
             in if n < 128 then [n] else [192 + n div 64, 128 + n mod 64])"

definition Buffer_from :: "string \<Rightarrow> nat list" where
  "Buffer_from s = concat (map utf8 s)"

text \<open>\<^verbatim>\<open>crypto.timingSafeEqual\<close> throws when the two buffers differ in length.\<close>

definition timingSafeEqual :: "nat list \<Rightarrow> nat list \<Rightarrow> exn + bool" where
  "timingSafeEqual a b =
     (if length a \<noteq> length b
      then Inl (RangeError ''Input buffers must have the same byte length'')
      else Inr (a = b))"

text \<open>
  \<^verbatim>\<open>validateWebhookSignature\<close>. The two library calls are parameters:
  \<open>hmac_sha256_hex secret payload\<close> is
  \<^verbatim>\<open>crypto.createHmac('sha256', secret).update(payload, 'utf8').digest('hex')\<close>, which may
  throw, and \<open>JSON_stringify\<close> is \<^verbatim>\<open>JSON.stringify\<close> on the parsed request body.
  \<open>signature\<close> is the header \<^verbatim>\<open>X-Hub-Signature-256\<close> and \<open>secret\<close> the environment variable
  \<^verbatim>\<open>GITHUB_WEBHOOK_SECRET\<close>, \<^const>\<open>None\<close> when missing.
\<close>

definition validateWebhookSignature ::
  "(string \<Rightarrow> string \<Rightarrow> exn + string) \<Rightarrow> (json \<Rightarrow> string) \<Rightarrow>
   string option \<Rightarrow> json \<Rightarrow> string option \<Rightarrow> exn + response" where
  "validateWebhookSignature hmac_sha256_hex JSON_stringify signature body secret =
     (let payload = JSON_stringify body in
      case secret of
        None \<Rightarrow> Inr Next
      | Some secret_text \<Rightarrow>
          if secret_text = [] then Inr Next
          else (case signature of
            None \<Rightarrow> Inr (Respond 401 ''Missing signature'')
          | Some signature_text \<Rightarrow>
              if signature_text = [] then Inr (Respond 401 ''Missing signature'')
              else try_catch
                (bindE (hmac_sha256_hex secret_text payload) (\<lambda>digest.
                   let expectedSignature = ''sha256='' @ digest in
                   bindE (timingSafeEqual (Buffer_from signature_text)
                                          (Buffer_from expectedSignature)) (\<lambda>isValid.
                     if \<not> isValid then Inr (Respond 401 ''Invalid signature'')
                     else Inr Next)))
                (\<lambda>error. Inr (Respond 401 ''Signature validation failed''))))"

section \<open>Parsing the backend's response\<close>

text \<open>A review comment as \<^verbatim>\<open>parseAIResponse\<close> builds it.\<close>

record finding =
  path :: string
  line :: "json option"
  body :: "json option"
  severity :: json
  category :: json
  suggestion :: "json option"

definition comment_to_finding :: "changed_file \<Rightarrow> json \<Rightarrow> exn + finding" where
  "comment_to_finding file comment =
     bindE (get_prop comment ''line'') (\<lambda>comment_line.
     bindE (get_prop comment ''body'') (\<lambda>comment_body.
     bindE (get_prop comment ''severity'') (\<lambda>comment_severity.
     bindE (get_prop comment ''category'') (\<lambda>comment_category.
     bindE (get_prop comment ''suggestion'') (\<lambda>comment_suggestion.
       Inr \<lparr>path = filename file,
            line = comment_line,
            body = comment_body,
            severity = or_else comment_severity ''info'',
            category = or_else comment_category ''general'',
            suggestion = comment_suggestion\<rparr>)))))"

text \<open>\<^verbatim>\<open>CodeAnalysisService.parseAIResponse\<close>. \<open>JSON_parse\<close> is \<^verbatim>\<open>JSON.parse\<close>, which throws
  a \<^verbatim>\<open>SyntaxError\<close> on a text that is not JSON.\<close>

definition parseAIResponse ::
  "(string \<Rightarrow> exn + json) \<Rightarrow> string \<Rightarrow> changed_file \<Rightarrow> exn + finding list" where
  "parseAIResponse JSON_parse aiResponse file =
     try_catch
       (bindE (JSON_parse aiResponse) (\<lambda>parsed.
        bindE (get_prop parsed ''comments'') (\<lambda>comments.
          if \<not> truthy comments \<or> \<not> isArray comments then Inr []
          else array_map (comment_to_finding file) (array_elements comments))))
       (\<lambda>error. Inr [])"

section \<open>Analysis of the changed files\<close>

record analysis_context =
  c_repository :: string
  c_pr_number :: int
  c_pr_title :: string
  c_pr_description :: "string option"

record file_data =
  content :: "string option"
  fd_patch :: "string option"
  isNewFile :: bool

record prompt_context =
  pc_repository :: string
  pc_pr_title :: string
  pc_pr_description :: "string option"

record prompt =
  prompt_filename :: string
  language :: string
  prompt_status :: string
  prompt_additions :: int
  prompt_deletions :: int
  prompt_content :: "string option"
  prompt_patch :: "string option"
  prompt_isNewFile :: bool
  prompt_context :: prompt_context

text \<open>
  The calls that leave the process, in the order they are made. A run of the model
  takes the calls made so far and returns them extended.
\<close>

datatype call =
    GetPullRequestFiles string string int
  | GetFileContent "string option" "string option" string string
  | AnalyzeCode prompt
  | PostReviewComments string string int "finding list"

text \<open>
  The collaborators the pipeline calls: the repository service, the text-generation
  backend behind \<^verbatim>\<open>aiService.analyzeCode\<close>, the comment publisher
  \<^verbatim>\<open>reviewCommentService.postReviewComments\<close> and \<^verbatim>\<open>JSON.parse\<close>. Each remote call answers
  from the calls made so far and its arguments, with a value or a throw.
\<close>

record services =
  getPullRequestFiles :: "call list \<Rightarrow> string \<Rightarrow> string \<Rightarrow> int \<Rightarrow> exn + changed_file list"
  getFileContent ::
    "call list \<Rightarrow> string option \<Rightarrow> string option \<Rightarrow> string \<Rightarrow> string \<Rightarrow> exn + string"
  analyzeCode :: "call list \<Rightarrow> prompt \<Rightarrow> exn + string"
  postReviewComments :: "call list \<Rightarrow> string \<Rightarrow> string \<Rightarrow> int \<Rightarrow> finding list \<Rightarrow> exn + unit"
  JSON_parse :: "string \<Rightarrow> exn + json"

definition getFileExtension :: "string \<Rightarrow> string" where
  "getFileExtension name =
     (case lastIndexOf name CHR ''.'' of
        None \<Rightarrow> []
      | Some lastDot \<Rightarrow> toLowerCase (drop lastDot name))"

definition binaryExtensions :: "string list" where
  "binaryExtensions =
     [''.png'', ''.jpg'', ''.jpeg'', ''.gif'', ''.bmp'', ''.ico'',
      ''.pdf'', ''.zip'', ''.tar'', ''.gz'', ''.rar'',
      ''.exe'', ''.dll'', ''.so'', ''.dylib'',
      ''.woff'', ''.woff2'', ''.ttf'', ''.eot'']"

definition isBinaryFile :: "changed_file \<Rightarrow> bool" where
  "isBinaryFile file =
     (let extension = getFileExtension (filename file)
      in List.member binaryExtensions extension \<or> binary file)"

definition languageMap :: "(string \<times> string) list" where
  "languageMap =
     [(''.js'', ''javascript''),
      (''.jsx'', ''javascript''),
      (''.ts'', ''typescript''),
      (''.tsx'', ''typescript''),
      (''.py'', ''python''),
      (''.java'', ''java''),
      (''.go'', ''go''),
      (''.rs'', ''rust''),
      (''.php'', ''php''),
      (''.rb'', ''ruby''),
      (''.swift'', ''swift''),
      (''.kt'', ''kotlin''),
      (''.c'', ''c''),
      (''.cpp'', ''cpp''),
      (''.h'', ''c''),
      (''.hpp'', ''cpp''),
      (''.cs'', ''csharp''),
      (''.scala'', ''scala''),
      (''.clj'', ''clojure'')]"

definition getLanguageFromExtension :: "string \<Rightarrow> string" where
  "getLanguageFromExtension extension =
     (case map_of languageMap extension of Some l \<Rightarrow> l | None \<Rightarrow> ''text'')"

text \<open>\<^verbatim>\<open>s.split(c)\<close> for a single character, and \<^verbatim>\<open>xs[i]\<close> (\<^verbatim>\<open>undefined\<close> out of range).\<close>

fun split_on :: "char \<Rightarrow> string \<Rightarrow> string list" where
  "split_on c [] = [[]]"
| "split_on c (x # xs) =
     (if x = c then [] # split_on c xs
      else (case split_on c xs of [] \<Rightarrow> [[x]] | y # ys \<Rightarrow> (x # y) # ys))"

fun at_index :: "'a list \<Rightarrow> nat \<Rightarrow> 'a option" where
  "at_index [] i = None"
| "at_index (x # xs) 0 = Some x"
| "at_index (x # xs) (Suc i) = at_index xs i"

text \<open>
  \<^verbatim>\<open>getFileData\<close>. A failed fetch of the content is caught and leaves the content
  \<^verbatim>\<open>null\<close>. Nothing else in the body throws, so the outer handler, which would return
  \<^verbatim>\<open>null\<close> (\<^const>\<open>None\<close>), is never entered.
\<close>

definition getFileData ::
  "services \<Rightarrow> changed_file \<Rightarrow> analysis_context \<Rightarrow> call list \<Rightarrow> file_data option \<times> call list" where
  "getFileData sv file ctx calls =
     (let parts = split_on CHR ''/'' (c_repository ctx);
          owner = at_index parts 0;
          repo = at_index parts 1
      in if status file = ''added''
         then (Some \<lparr>content = None, fd_patch = patch file, isNewFile = True\<rparr>, calls)
         else
           (let fetched =
                  (case getFileContent sv calls owner repo (filename file) ''HEAD'' of
                     Inl error \<Rightarrow> None
                   | Inr text \<Rightarrow> Some text)
            in (Some \<lparr>content = fetched, fd_patch = patch file, isNewFile = False\<rparr>,
                calls @ [GetFileContent owner repo (filename file) ''HEAD''])))"

definition buildAnalysisPrompt :: "changed_file \<Rightarrow> file_data \<Rightarrow> analysis_context \<Rightarrow> prompt" where
  "buildAnalysisPrompt file fileData ctx =
     (let fileExtension = getFileExtension (filename file);
          lang = getLanguageFromExtension fileExtension
      in \<lparr>prompt_filename = filename file,
          language = lang,
          prompt_status = status file,
          prompt_additions = additions file,
          prompt_deletions = deletions file,
          prompt_content = content fileData,
          prompt_patch = fd_patch fileData,
          prompt_isNewFile = isNewFile fileData,
          prompt_context =
            \<lparr>pc_repository = c_repository ctx,
             pc_pr_title = c_pr_title ctx,
             pc_pr_description = c_pr_description ctx\<rparr>\<rparr>)"

text \<open>\<^verbatim>\<open>CodeAnalysisService.analyzeFile\<close>: the result, or the throw of the backend, and the
  calls made.\<close>

definition analyzeFile ::
  "services \<Rightarrow> changed_file \<Rightarrow> analysis_context \<Rightarrow> call list \<Rightarrow>
   (exn + finding list) \<times> call list" where
  "analyzeFile sv file ctx calls =
     (if isBinaryFile file then (Inr [], calls)
      else (case getFileData sv file ctx calls of
        (None, calls1) \<Rightarrow> (Inr [], calls1)
      | (Some fileData, calls1) \<Rightarrow>
          (let analysisPrompt = buildAnalysisPrompt file fileData ctx in
           case analyzeCode sv calls1 analysisPrompt of
             Inl error \<Rightarrow> (Inl error, calls1 @ [AnalyzeCode analysisPrompt])
           | Inr aiResponse \<Rightarrow>
               (parseAIResponse (JSON_parse sv) aiResponse file,
                calls1 @ [AnalyzeCode analysisPrompt]))))"

text \<open>The loop of \<^verbatim>\<open>analyzeFiles\<close> over the files, with \<open>results\<close> the array it pushes
  to. The handler of the loop body logs and goes on.\<close>

fun analyzeFiles_loop ::
  "services \<Rightarrow> analysis_context \<Rightarrow> changed_file list \<Rightarrow> finding list \<Rightarrow> call list \<Rightarrow>
   finding list \<times> call list" where
  "analyzeFiles_loop sv ctx [] results calls = (results, calls)"
| "analyzeFiles_loop sv ctx (file # files) results calls =
     (case analyzeFile sv file ctx calls of
        (Inr analysis, calls1) \<Rightarrow>
          analyzeFiles_loop sv ctx files
            (if analysis \<noteq> [] then results @ analysis else results) calls1
      | (Inl error, calls1) \<Rightarrow> analyzeFiles_loop sv ctx files results calls1)"

definition analyzeFiles ::
  "services \<Rightarrow> changed_file list \<Rightarrow> analysis_context \<Rightarrow> call list \<Rightarrow>
   (exn + finding list) \<times> call list" where
  "analyzeFiles sv files ctx calls =
     (case analyzeFiles_loop sv ctx files [] calls of
        (results, calls1) \<Rightarrow> (Inr results, calls1))"

section \<open>The pull request pipeline and the dispatch of events\<close>

record user_info =
  login :: string
  user_type :: string

record pr_info =
  number :: int
  title :: string
  pr_body :: "string option"
  draft :: bool
  user :: user_info

record repo_info =
  full_name :: string
  owner_login :: string
  name :: string

record payload =
  action :: string
  pull_request :: pr_info
  repository :: repo_info

record metadata =
  delivery :: "string option"
  signature :: "string option"

text \<open>\<^verbatim>\<open>PullRequestHandler.handle\<close>. Its handler logs and throws the error again, so a
  throw of the file listing or of the publisher leaves the method.\<close>

definition PullRequestHandler_handle ::
  "services \<Rightarrow> int option \<Rightarrow> int option \<Rightarrow> payload \<Rightarrow> metadata \<Rightarrow> call list \<Rightarrow>
   (exn + unit) \<times> call list" where
  "PullRequestHandler_handle sv MAX_FILES_TO_REVIEW MAX_LINES_PER_FILE pl md calls =
     (let pr = pull_request pl; repo = repository pl in
      if \<not> List.member [''opened'', ''synchronize''] (action pl) then (Inr (), calls)
      else if draft pr then (Inr (), calls)
      else if user_type (user pr) = ''Bot'' then (Inr (), calls)
      else
        (let calls1 = calls @ [GetPullRequestFiles (owner_login repo) (name repo) (number pr)] in
         case getPullRequestFiles sv calls (owner_login repo) (name repo) (number pr) of
           Inl error \<Rightarrow> (Inl error, calls1)
         | Inr files \<Rightarrow>
             if length files = 0 then (Inr (), calls1)
             else
               (let reviewableFiles =
                      filterReviewableFiles MAX_FILES_TO_REVIEW MAX_LINES_PER_FILE files in
                if length reviewableFiles = 0 then (Inr (), calls1)
                else
                  (case analyzeFiles sv reviewableFiles
                          \<lparr>c_repository = full_name repo,
                           c_pr_number = number pr,
                           c_pr_title = title pr,
                           c_pr_description = pr_body pr\<rparr> calls1 of
                     (Inl error, calls2) \<Rightarrow> (Inl error, calls2)
                   | (Inr analysisResults, calls2) \<Rightarrow>
                       (let calls3 = calls2 @
                              [PostReviewComments (owner_login repo) (name repo) (number pr)
                                 analysisResults] in
                        case postReviewComments sv calls2 (owner_login repo) (name repo)
                               (number pr) analysisResults of
                          Inl error \<Rightarrow> (Inl error, calls3)
                        | Inr done \<Rightarrow> (Inr (), calls3))))))"

text \<open>
  The values stored in the table \<^verbatim>\<open>this.handlers\<close> of \<^verbatim>\<open>WebhookHandler\<close>: under
  \<^verbatim>\<open>pull_request\<close> the imported \<^verbatim>\<open>pullRequestHandler\<close>, which is the object
  \<^verbatim>\<open>new PullRequestHandler()\<close>, and under the two review events methods of the class
  bound to \<^verbatim>\<open>this\<close>. Event names are those the sender uses; members the table
  inherits from \<^verbatim>\<open>Object.prototype\<close> are left out.
\<close>

datatype handler =
    PullRequestHandlerObject
  | HandlePullRequestReview
  | HandlePullRequestReviewComment

definition handlers :: "string \<Rightarrow> handler option" where
  "handlers event =
     (if event = ''pull_request'' then Some PullRequestHandlerObject
      else if event = ''pull_request_review'' then Some HandlePullRequestReview
      else if event = ''pull_request_review_comment'' then Some HandlePullRequestReviewComment
      else None)"

text \<open>
  \<^verbatim>\<open>handler(payload, metadata)\<close>: calling a value that is not a function throws a
  \<^verbatim>\<open>TypeError\<close>; the two bound methods only log.
\<close>

fun call_handler ::
  "handler \<Rightarrow> payload \<Rightarrow> metadata \<Rightarrow> call list \<Rightarrow> (exn + unit) \<times> call list" where
  "call_handler PullRequestHandlerObject pl md calls =
     (Inl (TypeError ''handler is not a function''), calls)"
| "call_handler HandlePullRequestReview pl md calls = (Inr (), calls)"
| "call_handler HandlePullRequestReviewComment pl md calls = (Inr (), calls)"

text \<open>\<^verbatim>\<open>WebhookHandler.handle\<close>: its handler logs and throws the error again.\<close>

definition WebhookHandler_handle ::
  "string \<Rightarrow> payload \<Rightarrow> metadata \<Rightarrow> call list \<Rightarrow> (exn + unit) \<times> call list" where
  "WebhookHandler_handle event pl md calls =
     (case handlers event of
        None \<Rightarrow> (Inr (), calls)
      | Some handler \<Rightarrow>
          (case call_handler handler pl md calls of
             (Inl error, calls1) \<Rightarrow> (Inl error, calls1)
           | (Inr done, calls1) \<Rightarrow> (Inr (), calls1)))"

text \<open>The route \<^verbatim>\<open>POST /webhook/github\<close> behind the signature check: what the sender of
  the webhook gets back.\<close>

definition webhook_route ::
  "string \<Rightarrow> payload \<Rightarrow> metadata \<Rightarrow> call list \<Rightarrow> response \<times> call list" where
  "webhook_route event pl md calls =
     (case WebhookHandler_handle event pl md calls of
        (Inr done, calls1) \<Rightarrow> (Respond 200 ''Webhook processed successfully'', calls1)
      | (Inl error, calls1) \<Rightarrow> (Respond 500 ''Webhook processing failed'', calls1))"

section \<open>Notions used to state the properties\<close>

text \<open>The outcome of each file's analysis, in the order of the files, each file starting
  from the calls made before it.\<close>

fun file_outcomes ::
  "services \<Rightarrow> analysis_context \<Rightarrow> changed_file list \<Rightarrow> call list \<Rightarrow>
   (exn + finding list) list" where
  "file_outcomes sv ctx [] calls = []"
| "file_outcomes sv ctx (file # files) calls =
     fst (analyzeFile sv file ctx calls) #
     file_outcomes sv ctx files (snd (analyzeFile sv file ctx calls))"

text \<open>What one outcome contributes to the batch: nothing when the analysis threw.\<close>

fun contribution :: "exn + finding list \<Rightarrow> finding list" where
  "contribution (Inl error) = []"
| "contribution (Inr analysis) = analysis"

text \<open>The file names of the backend calls in a list of calls.\<close>

fun backend_calls :: "call list \<Rightarrow> string list" where
  "backend_calls [] = []"
| "backend_calls (AnalyzeCode p # calls) = prompt_filename p # backend_calls calls"
| "backend_calls (c # calls) = backend_calls calls"

text \<open>The own property \<open>k\<close> of a decoded comment that is not \<^verbatim>\<open>null\<close>.\<close>

fun own_prop :: "json \<Rightarrow> string \<Rightarrow> json option" where
  "own_prop (JObj ps) k = map_of ps k"
| "own_prop v k = None"

text \<open>
  The finding the specification describes for one decoded comment: the path is the
  file's name, \<open>line\<close>, \<open>body\<close> and \<open>suggestion\<close> are the comment's own values, and
  \<open>severity\<close> and \<open>category\<close> are the comment's values when they are truthy and
  \<^verbatim>\<open>info\<close> and \<^verbatim>\<open>general\<close> when they are missing or falsy.
\<close>

definition expected_finding :: "changed_file \<Rightarrow> json \<Rightarrow> finding" where
  "expected_finding file comment =
     \<lparr>path = filename file,
      line = own_prop comment ''line'',
      body = own_prop comment ''body'',
      severity = (case own_prop comment ''severity'' of
                    None \<Rightarrow> JStr ''info''
                  | Some s \<Rightarrow> if truthy (Some s) then s else JStr ''info''),
      category = (case own_prop comment ''category'' of
                    None \<Rightarrow> JStr ''general''
                  | Some c \<Rightarrow> if truthy (Some c) then c else JStr ''general''),
      suggestion = own_prop comment ''suggestion''\<rparr>"

section \<open>Sample inputs\<close>

text \<open>
  Concrete requests, files and backend answers on which the properties below are
  evaluated. The three library functions are given at the sample inputs only, with the
  values the libraries return there: the digests are HMAC-SHA256 in hexadecimal, the
  texts are what \<^verbatim>\<open>JSON.stringify\<close> writes and the values what \<^verbatim>\<open>JSON.parse\<close> reads.
\<close>

definition body_opened :: json where
  "body_opened = JObj [(''action'', JStr ''opened'')]"

definition body_closed :: json where
  "body_closed = JObj [(''action'', JStr ''closed'')]"

definition sample_JSON_stringify :: "json \<Rightarrow> string" where
  "sample_JSON_stringify v =
     (if v = body_opened then ''{\"action\":\"opened\"}''
      else if v = body_closed then ''{\"action\":\"closed\"}''
      else ''null'')"

definition sample_hmac_sha256_hex :: "string \<Rightarrow> string \<Rightarrow> exn + string" where
  "sample_hmac_sha256_hex secret_text payload =
     (if secret_text = ''s3cr3t'' \<and> payload = ''{\"action\":\"opened\"}''
      then Inr ''893b8b176c39b217756497563a1b9ba1507d371642b1edf4ee9f876b8fd74ecc''
      else if secret_text = ''s3cr3t'' \<and> payload = ''{\"action\":\"closed\"}''
      then Inr ''8d54791e0c9ebafd268136075384c7aaddbe71cc03c5959099f01ba42f3ac289''
      else if secret_text = ''s3cr3t'' \<and> payload = ''{\"action\": \"opened\"}''
      then Inr ''d6d6b1bda84ea3cce09193b49d66aafe54119e3b8a74457f3e33a5924dc75ced''
      else if secret_text = [] \<and> payload = ''{\"action\":\"opened\"}''
      then Inr ''4aab9d35e38f28618f0f04ea1235324b382ff46b28f6b0543bb4e22dbbc9ba53''
      else Inl (Error ''no reference digest''))"

text \<open>A crypto library in which the digest cannot be computed.\<close>

definition failing_hmac_sha256_hex :: "string \<Rightarrow> string \<Rightarrow> exn + string" where
  "failing_hmac_sha256_hex secret_text payload = Inl (Error ''Digest method not supported'')"

definition two_comments :: string where
  "two_comments =
     ''{\"comments\":[{\"line\":3,\"body\":\"Unused variable\",\"severity\":\"warning\"},'' @
     ''{\"line\":7,\"body\":\"Off by one\",\"category\":\"bug\"}]}''"

definition six_comments :: string where
  "six_comments =
     ''{\"comments\":[{\"line\":1},{\"line\":2},{\"line\":3},{\"line\":4},{\"line\":5},'' @
     ''{\"line\":6,\"severity\":\"\"}]}''"

definition sample_JSON_parse :: "string \<Rightarrow> exn + json" where
  "sample_JSON_parse s =
     (if s = two_comments then
        Inr (JObj [(''comments'', JArr
          [JObj [(''line'', JNum 3), (''body'', JStr ''Unused variable''),
                 (''severity'', JStr ''warning'')],
           JObj [(''line'', JNum 7), (''body'', JStr ''Off by one''),
                 (''category'', JStr ''bug'')]])])
      else if s = six_comments then
        Inr (JObj [(''comments'', JArr
          [JObj [(''line'', JNum 1)], JObj [(''line'', JNum 2)], JObj [(''line'', JNum 3)],
           JObj [(''line'', JNum 4)], JObj [(''line'', JNum 5)],
           JObj [(''line'', JNum 6), (''severity'', JStr [])]])])
      else if s = ''{\"comments\":[null]}'' then Inr (JObj [(''comments'', JArr [JNull])])
      else if s = ''{\"comments\":\"none\"}'' then Inr (JObj [(''comments'', JStr ''none'')])
      else if s = ''{\"summary\":\"looks good\"}'' then
        Inr (JObj [(''summary'', JStr ''looks good'')])
      else if s = ''null'' then Inr JNull
      else if s = ''{\"action\": \"opened\"}'' then Inr body_opened
      else Inl (SyntaxError ''Unexpected token''))"

definition sample_file :: "string \<Rightarrow> string \<Rightarrow> int \<Rightarrow> int \<Rightarrow> changed_file" where
  "sample_file file_name file_status added deleted =
     \<lparr>filename = file_name, status = file_status, additions = added, deletions = deleted,
      changes = added + deleted, patch = Some ''@@ -1,3 +1,4 @@'', binary = False\<rparr>"

definition sample_context :: analysis_context where
  "sample_context =
     \<lparr>c_repository = ''octo/demo'', c_pr_number = 7, c_pr_title = ''Add parser'',
      c_pr_description = None\<rparr>"

text \<open>A repository service that lists \<^verbatim>\<open>app.js\<close> and has no file content to give, a backend
  that times out on \<^verbatim>\<open>main.py\<close> and answers every other file with two comments, and a
  publisher that succeeds.\<close>

definition sample_services :: services where
  "sample_services =
     \<lparr>getPullRequestFiles = (\<lambda>calls owner repo n. Inr [sample_file ''app.js'' ''modified'' 4 1]),
      getFileContent = (\<lambda>calls owner repo file_path ref. Inl (Error ''Not Found'')),
      analyzeCode = (\<lambda>calls p.
         if prompt_filename p = ''main.py'' then Inl (Error ''timeout of 30000ms exceeded'')
         else Inr two_comments),
      postReviewComments = (\<lambda>calls owner repo n comments. Inr ()),
      JSON_parse = sample_JSON_parse\<rparr>"

text \<open>The findings the two comments of the sample backend give for \<^verbatim>\<open>app.js\<close>.\<close>

definition app_js_findings :: "finding list" where
  "app_js_findings =
     [\<lparr>path = ''app.js'', line = Some (JNum 3), body = Some (JStr ''Unused variable''),
       severity = JStr ''warning'', category = JStr ''general'', suggestion = None\<rparr>,
      \<lparr>path = ''app.js'', line = Some (JNum 7), body = Some (JStr ''Off by one''),
       severity = JStr ''info'', category = JStr ''bug'', suggestion = None\<rparr>]"

definition sample_payload :: payload where
  "sample_payload =
     \<lparr>action = ''opened'',
      pull_request = \<lparr>number = 7, title = ''Add parser'', pr_body = None, draft = False,
                      user = \<lparr>login = ''alice'', user_type = ''User''\<rparr>\<rparr>,
      repository = \<lparr>full_name = ''octo/demo'', owner_login = ''octo'', name = ''demo''\<rparr>\<rparr>"

definition sample_metadata :: metadata where
  "sample_metadata = \<lparr>delivery = Some ''d-1'', signature = None\<rparr>"

section \<open>Signature validation: properties\<close>

subsection \<open>The UTF-8 bytes determine the string\<close>

lemma utf8_nonempty: "utf8 c \<noteq> []" by (simp add: utf8_def Let_def)

lemma div_mod_64_eq:
  fixes a b :: nat
  assumes "a div 64 = b div 64" "a mod 64 = b mod 64"
  shows "a = b"
proof -
  have "a = 64 * (a div 64) + a mod 64" by simp
  also have "\<dots> = 64 * (b div 64) + b mod 64" using assms by simp
  also have "\<dots> = b" by simp
  finally show ?thesis .
qed

lemma utf8_prefix_free:
  assumes "utf8 c @ xs = utf8 d @ ys"
  shows "c = d \<and> xs = ys"
proof -
  let ?a = "of_char c :: nat" and ?b = "of_char d :: nat"
  have "?a = ?b \<and> xs = ys"
  proof (cases "?a < 128")
    case a: True
    show ?thesis
    proof (cases "?b < 128")
      case True
      with a assms show ?thesis by (auto simp: utf8_def Let_def)
    next
      case False
      with a assms show ?thesis by (auto simp: utf8_def Let_def)
    qed
  next
    case a: False
    show ?thesis
    proof (cases "?b < 128")
      case True
      with a assms show ?thesis by (auto simp: utf8_def Let_def)
    next
      case False
      with a assms have "?a div 64 = ?b div 64" "?a mod 64 = ?b mod 64" "xs = ys"
        by (simp_all add: utf8_def Let_def)
      with div_mod_64_eq show ?thesis by blast
    qed
  qed
  thus ?thesis by simp
qed

lemma Buffer_from_inj: "Buffer_from s = Buffer_from t \<Longrightarrow> s = t"
proof (induction s arbitrary: t)
  case Nil
  then show ?case by (cases t) (auto simp: Buffer_from_def utf8_nonempty)
next
  case (Cons c s)
  show ?case
  proof (cases t)
    case Nil
    with Cons.prems show ?thesis by (auto simp: Buffer_from_def utf8_nonempty)
  next
    case t: (Cons d t')
    with Cons.prems have "utf8 c @ Buffer_from s = utf8 d @ Buffer_from t'"
      by (simp add: Buffer_from_def)
    from utf8_prefix_free[OF this] Cons.IH t show ?thesis by simp
  qed
qed

subsection \<open>The check with a secret configured\<close>

text \<open>With a secret and a header that are not empty, the middleware computes the digest
  and compares the bytes; every throw on the way is answered with 401.\<close>

lemma validate_with_secret:
  assumes "secret_text \<noteq> []" "sg \<noteq> []"
  shows "validateWebhookSignature hmac str (Some sg) rb (Some secret_text) =
     (case hmac secret_text (str rb) of
        Inl e \<Rightarrow> Inr (Respond 401 ''Signature validation failed'')
      | Inr digest \<Rightarrow>
          if length (Buffer_from sg) \<noteq> length (Buffer_from (''sha256='' @ digest))
          then Inr (Respond 401 ''Signature validation failed'')
          else if sg = ''sha256='' @ digest then Inr Next
          else Inr (Respond 401 ''Invalid signature''))"
proof (cases "hmac secret_text (str rb)")
  case (Inl e)
  with assms show ?thesis
    by (simp add: validateWebhookSignature_def try_catch_def bindE_def)
next
  case (Inr digest)
  have "(Buffer_from sg = Buffer_from (''sha256='' @ digest)) = (sg = ''sha256='' @ digest)"
    using Buffer_from_inj by blast
  with Inr assms show ?thesis
    by (simp add: validateWebhookSignature_def try_catch_def bindE_def timingSafeEqual_def)
qed

lemmas sample_auth_defs =
  sample_hmac_sha256_hex_def sample_JSON_stringify_def body_opened_def body_closed_def




text \<open>
  The middleware hashes \<^verbatim>\<open>JSON.stringify(req.body)\<close>, the parsed body written out again,
  and not the bytes that were received. The raw body \<^verbatim>\<open>{"action": "opened"}\<close>, with a
  space after the colon, is parsed to the same value as \<^verbatim>\<open>{"action":"opened"}\<close>; signed
  correctly over the raw bytes, it is answered with 401.
\<close>

lemma signature_over_raw_body_rejected:
  "sample_JSON_parse ''{\"action\": \"opened\"}'' = Inr body_opened
 \<and> sample_hmac_sha256_hex ''s3cr3t'' ''{\"action\": \"opened\"}''
     = Inr ''d6d6b1bda84ea3cce09193b49d66aafe54119e3b8a74457f3e33a5924dc75ced''
 \<and> validateWebhookSignature sample_hmac_sha256_hex sample_JSON_stringify
     (Some ''sha256=d6d6b1bda84ea3cce09193b49d66aafe54119e3b8a74457f3e33a5924dc75ced'')
     body_opened (Some ''s3cr3t'') = Inr (Respond 401 ''Invalid signature'')"
  by (simp add: validateWebhookSignature_def sample_auth_defs try_catch_def bindE_def
        timingSafeEqual_def Buffer_from_def utf8_def sample_JSON_parse_def
        two_comments_def six_comments_def)

text \<open>
  C6. With a secret configured and a signature header present, the middleware never
  throws: it goes on or answers 401. When the digest computation throws, and when the
  comparison throws because the header has another byte length than the expected
  signature, the answer is 401 with \<^verbatim>\<open>Signature validation failed\<close>.
\<close>

theorem signature_errors_answered_401:
  assumes "secret_text \<noteq> []" and "sg \<noteq> []"
  shows "(validateWebhookSignature hmac str (Some sg) rb (Some secret_text) = Inr Next
          \<or> (\<exists>msg. validateWebhookSignature hmac str (Some sg) rb (Some secret_text)
                     = Inr (Respond 401 msg)))
       \<and> (\<forall>e. hmac secret_text (str rb) = Inl e \<longrightarrow>
             validateWebhookSignature hmac str (Some sg) rb (Some secret_text)
               = Inr (Respond 401 ''Signature validation failed''))
       \<and> (\<forall>digest e. hmac secret_text (str rb) = Inr digest
              \<and> timingSafeEqual (Buffer_from sg) (Buffer_from (''sha256='' @ digest)) = Inl e \<longrightarrow>
             validateWebhookSignature hmac str (Some sg) rb (Some secret_text)
               = Inr (Respond 401 ''Signature validation failed''))"
  unfolding validate_with_secret[OF assms]
  by (cases "hmac secret_text (str rb)") (auto simp: timingSafeEqual_def split: if_splits)

text \<open>Witness for C6: a header that is too short, and a library whose digest throws.\<close>

theorem signature_errors_answered_401_witness:
  "validateWebhookSignature sample_hmac_sha256_hex sample_JSON_stringify
     (Some ''sha256=abc'') body_opened (Some ''s3cr3t'')
     = Inr (Respond 401 ''Signature validation failed'')
   \<and> validateWebhookSignature failing_hmac_sha256_hex sample_JSON_stringify
     (Some ''sha256=893b8b176c39b217756497563a1b9ba1507d371642b1edf4ee9f876b8fd74ecc'')
     body_opened (Some ''s3cr3t'')
     = Inr (Respond 401 ''Signature validation failed'')"
proof -
  have s: "''s3cr3t'' \<noteq> []" by simp
  have g: "''sha256=abc'' \<noteq> []" by simp
  have g2: "''sha256=893b8b176c39b217756497563a1b9ba1507d371642b1edf4ee9f876b8fd74ecc'' \<noteq> []"
    by simp
  have d: "sample_hmac_sha256_hex ''s3cr3t'' (sample_JSON_stringify body_opened)
             = Inr ''893b8b176c39b217756497563a1b9ba1507d371642b1edf4ee9f876b8fd74ecc''"
    by (simp add: sample_auth_defs)
  have t: "timingSafeEqual (Buffer_from ''sha256=abc'')
             (Buffer_from (''sha256='' @
                ''893b8b176c39b217756497563a1b9ba1507d371642b1edf4ee9f876b8fd74ecc''))
           = Inl (RangeError ''Input buffers must have the same byte length'')"
    by (simp add: timingSafeEqual_def Buffer_from_def utf8_def)
  have f: "failing_hmac_sha256_hex ''s3cr3t'' (sample_JSON_stringify body_opened)
             = Inl (Error ''Digest method not supported'')"
    by (simp add: failing_hmac_sha256_hex_def)
  note ok = signature_errors_answered_401[where hmac=sample_hmac_sha256_hex
         and str=sample_JSON_stringify and rb=body_opened, OF s g]
  have a: "validateWebhookSignature sample_hmac_sha256_hex sample_JSON_stringify
     (Some ''sha256=abc'') body_opened (Some ''s3cr3t'')
     = Inr (Respond 401 ''Signature validation failed'')"
    by (rule ok[THEN conjunct2, THEN conjunct2, rule_format, OF conjI, OF d t])
  note bad = signature_errors_answered_401[where hmac=failing_hmac_sha256_hex
         and str=sample_JSON_stringify and rb=body_opened, OF s g2]
  have b: "validateWebhookSignature failing_hmac_sha256_hex sample_JSON_stringify
     (Some ''sha256=893b8b176c39b217756497563a1b9ba1507d371642b1edf4ee9f876b8fd74ecc'')
     body_opened (Some ''s3cr3t'')
     = Inr (Respond 401 ''Signature validation failed'')"
    by (rule bad[THEN conjunct2, THEN conjunct1, rule_format, OF f])
  from a b show ?thesis by (rule conjI)
qed

text \<open>
  C7. With no secret configured (the variable is missing or empty) every request is
  accepted and goes on to the handler, whatever the body and the header, also when the
  header is missing or malformed.
\<close>

theorem no_secret_accepts:
  assumes "secret = None \<or> secret = Some []"
  shows "validateWebhookSignature hmac str sg rb secret = Inr Next"
  using assms by (auto simp: validateWebhookSignature_def)

(* triage *)

text \<open>Witness for C7: a malformed header without a secret, and no header with an empty
  secret.\<close>

theorem no_secret_accepts_witness:
  "validateWebhookSignature sample_hmac_sha256_hex sample_JSON_stringify
     (Some ''not a signature'') body_opened None = Inr Next
   \<and> validateWebhookSignature sample_hmac_sha256_hex sample_JSON_stringify
     None body_opened (Some []) = Inr Next"
proof -
  have a: "(None :: string option) = None \<or> None = Some []" by simp
  have b: "Some [] = None \<or> Some [] = Some ([] :: string)" by simp
  from no_secret_accepts[OF a] no_secret_accepts[OF b] show ?thesis by simp
qed

section \<open>File triage: properties\<close>

lemma filter_take_filter: "filter P (take n (filter P xs)) = take n (filter P xs)"
proof (rule filter_True, rule ballI)
  fix x assume "x \<in> set (take n (filter P xs))"
  hence "x \<in> set (filter P xs)" by (rule in_set_takeD)
  thus "P x" by simp
qed

lemma triage_nonneg:
  "0 \<le> maxFiles mf \<Longrightarrow>
   filterReviewableFiles mf ml files =
     take (nat (maxFiles mf)) (filter (reviewable (maxLinesPerFile ml)) files)"
  by (simp add: filterReviewableFiles_def slice0_def)

lemma reviewable_facts:
  "reviewable m f \<Longrightarrow> status f \<noteq> ''removed'' \<and> changes f \<le> m"
  by (auto simp: reviewable_def split: if_splits)

lemmas triage_eval =
  filterReviewableFiles_def slice0_def maxFiles_def maxLinesPerFile_def parseInt_or_def
  sample_file_def reviewable_def skipPatterns_def reviewableExtensions_def endsWith_def
  toLowerCase_def toLowerCase_char_def upperCaseChars_def lowerCaseChars_def

text \<open>
  C3, as amended. \<open>maxFiles\<close> and \<open>maxLinesPerFile\<close> are the limits in force: the configured
  number, or 20 and 1000 when the setting is missing, not a number or 0. For every list
  of changed files and every configuration whose file limit in force is not negative:
  no returned file has the status \<^verbatim>\<open>removed\<close>, none has more changes than
  \<open>maxLinesPerFile\<close> (so none has more added plus deleted lines, the total of changes being
  their sum), at most \<open>maxFiles\<close> files are returned, and the result is the first
  \<open>maxFiles\<close> files that pass the filter, in the order of the input.
\<close>

theorem triage_invariants:
  assumes "0 \<le> maxFiles mf"
  shows "(\<forall>f \<in> set (filterReviewableFiles mf ml files).
            status f \<noteq> ''removed''
          \<and> changes f \<le> maxLinesPerFile ml
          \<and> (changes f = additions f + deletions f \<longrightarrow>
               additions f + deletions f \<le> maxLinesPerFile ml))
       \<and> int (length (filterReviewableFiles mf ml files)) \<le> maxFiles mf
       \<and> subseq (filterReviewableFiles mf ml files) files
       \<and> filterReviewableFiles mf ml files =
           take (nat (maxFiles mf)) (filter (reviewable (maxLinesPerFile ml)) files)"
proof -
  let ?out = "filterReviewableFiles mf ml files"
  let ?kept = "filter (reviewable (maxLinesPerFile ml)) files"
  have eq: "?out = take (nat (maxFiles mf)) ?kept"
    using assms by (rule triage_nonneg)
  have a: "\<forall>f \<in> set ?out. status f \<noteq> ''removed'' \<and> changes f \<le> maxLinesPerFile ml
          \<and> (changes f = additions f + deletions f \<longrightarrow>
               additions f + deletions f \<le> maxLinesPerFile ml)"
  proof
    fix f assume "f \<in> set ?out"
    hence "f \<in> set ?kept" unfolding eq by (rule in_set_takeD)
    hence "reviewable (maxLinesPerFile ml) f" by simp
    hence "status f \<noteq> ''removed'' \<and> changes f \<le> maxLinesPerFile ml"
      by (rule reviewable_facts)
    thus "status f \<noteq> ''removed'' \<and> changes f \<le> maxLinesPerFile ml
          \<and> (changes f = additions f + deletions f \<longrightarrow>
               additions f + deletions f \<le> maxLinesPerFile ml)"
      by simp
  qed
  have b: "int (length ?out) \<le> maxFiles mf"
    unfolding eq using assms by simp
  have "prefix (take (nat (maxFiles mf)) ?kept) ?kept"
    by (rule take_is_prefix)
  hence "subseq ?out ?kept"
    unfolding eq by (rule prefix_imp_subseq)
  moreover have "subseq ?kept files"
    by (rule subseq_filter_left)
  ultimately have c: "subseq ?out files"
    by (rule subseq_order.order_trans)
  from a b c eq show ?thesis by (intro conjI)
qed

text \<open>Witness for C3: six files and a limit of two; the documentation file, the removed
  file and the file with 1100 changes are dropped, and the fourth survivor is cut.\<close>

theorem triage_invariants_witness:
  "filterReviewableFiles (Some 2) None
     [sample_file ''README.md'' ''modified'' 2 0,
      sample_file ''main.py'' ''modified'' 10 2,
      sample_file ''old.py'' ''removed'' 0 40,
      sample_file ''big.js'' ''modified'' 900 200,
      sample_file ''App.JS'' ''added'' 5 0,
      sample_file ''util.ts'' ''modified'' 1 1]
   = [sample_file ''main.py'' ''modified'' 10 2, sample_file ''App.JS'' ''added'' 5 0]
   \<and> subseq [sample_file ''main.py'' ''modified'' 10 2, sample_file ''App.JS'' ''added'' 5 0]
     [sample_file ''README.md'' ''modified'' 2 0,
      sample_file ''main.py'' ''modified'' 10 2,
      sample_file ''old.py'' ''removed'' 0 40,
      sample_file ''big.js'' ''modified'' 900 200,
      sample_file ''App.JS'' ''added'' 5 0,
      sample_file ''util.ts'' ''modified'' 1 1]"
proof -
  let ?files = "[sample_file ''README.md'' ''modified'' 2 0,
      sample_file ''main.py'' ''modified'' 10 2,
      sample_file ''old.py'' ''removed'' 0 40,
      sample_file ''big.js'' ''modified'' 900 200,
      sample_file ''App.JS'' ''added'' 5 0,
      sample_file ''util.ts'' ''modified'' 1 1]"
  have m: "0 \<le> maxFiles (Some 2)" by (simp add: maxFiles_def parseInt_or_def)
  have e: "filterReviewableFiles (Some 2) None ?files
     = [sample_file ''main.py'' ''modified'' 10 2, sample_file ''App.JS'' ''added'' 5 0]"
    by (simp add: triage_eval)
  from triage_invariants[OF m, of None ?files]
  have "subseq (filterReviewableFiles (Some 2) None ?files) ?files" by (elim conjE)
  with e show ?thesis by simp
qed

text \<open>
  Counterexample to C3 as stated (every limits configuration): with
  \<^verbatim>\<open>MAX_FILES_TO_REVIEW=-1\<close> the limit in force is -1, \<^verbatim>\<open>slice(0, -1)\<close> drops the last
  survivor only, and one file is returned, which is more than the limit.
\<close>

theorem triage_negative_limit_counterexample:
  "filterReviewableFiles (Some (- 1)) None
     [sample_file ''a.js'' ''added'' 1 0, sample_file ''b.js'' ''added'' 1 0]
   = [sample_file ''a.js'' ''added'' 1 0]
   \<and> maxFiles (Some (- 1)) = - 1
   \<and> \<not> int (length (filterReviewableFiles (Some (- 1)) None
           [sample_file ''a.js'' ''added'' 1 0, sample_file ''b.js'' ''added'' 1 0]))
         \<le> maxFiles (Some (- 1))"
  by (simp add: triage_eval)

text \<open>
  C8, as amended. The selection is a function of the files and the two settings, so two
  applications to the same input give the same output. For every configuration whose
  file limit in force is not negative it is idempotent: applied to its own output it
  returns that output.
\<close>

theorem triage_idempotent:
  assumes "0 \<le> maxFiles mf"
  shows "filterReviewableFiles mf ml (filterReviewableFiles mf ml files)
           = filterReviewableFiles mf ml files"
  by (simp add: triage_nonneg[OF assms] filter_take_filter)

text \<open>Witness for C8: two reviewable files and a limit of one.\<close>

theorem triage_idempotent_witness:
  "filterReviewableFiles (Some 1) None
     (filterReviewableFiles (Some 1) None
        [sample_file ''a.js'' ''added'' 1 0, sample_file ''b.js'' ''added'' 1 0])
   = [sample_file ''a.js'' ''added'' 1 0]"
proof -
  have m: "0 \<le> maxFiles (Some 1)" by (simp add: maxFiles_def parseInt_or_def)
  have e: "filterReviewableFiles (Some 1) None
        [sample_file ''a.js'' ''added'' 1 0, sample_file ''b.js'' ''added'' 1 0]
     = [sample_file ''a.js'' ''added'' 1 0]"
    by (simp add: triage_eval)
  from triage_idempotent[OF m, of None
        "[sample_file ''a.js'' ''added'' 1 0, sample_file ''b.js'' ''added'' 1 0]"] e
  show ?thesis by simp
qed

text \<open>
  Counterexample to C8 as stated (every input and fixed limits): with
  \<^verbatim>\<open>MAX_FILES_TO_REVIEW=-1\<close> each application drops the last survivor, so the second
  application does not return the output of the first.
\<close>

theorem triage_not_idempotent_counterexample:
  "filterReviewableFiles (Some (- 1)) None
     [sample_file ''a.js'' ''added'' 1 0, sample_file ''b.js'' ''added'' 1 0,
      sample_file ''c.js'' ''added'' 1 0]
   = [sample_file ''a.js'' ''added'' 1 0, sample_file ''b.js'' ''added'' 1 0]
   \<and> filterReviewableFiles (Some (- 1)) None
       (filterReviewableFiles (Some (- 1)) None
          [sample_file ''a.js'' ''added'' 1 0, sample_file ''b.js'' ''added'' 1 0,
           sample_file ''c.js'' ''added'' 1 0])
     = [sample_file ''a.js'' ''added'' 1 0]"
  by (simp add: triage_eval)

section \<open>Response parsing: properties\<close>

lemma parse_never_throws: "\<exists>fs. parseAIResponse jp raw fl = Inr fs"
  by (simp add: parseAIResponse_def try_catch_def split: sum.splits)

lemma parse_decoded:
  assumes "jp raw = Inr v"
  shows "parseAIResponse jp raw fl =
     (case get_prop v ''comments'' of
        Inl e \<Rightarrow> Inr []
      | Inr c \<Rightarrow>
          if \<not> truthy c \<or> \<not> isArray c then Inr []
          else (case array_map (comment_to_finding fl) (array_elements c) of
                  Inl e \<Rightarrow> Inr [] | Inr fs \<Rightarrow> Inr fs))"
  using assms
  by (simp add: parseAIResponse_def try_catch_def bindE_def split: sum.splits)

lemmas parse_eval =
  parseAIResponse_def try_catch_def bindE_def comment_to_finding_def
  sample_JSON_parse_def two_comments_def six_comments_def sample_file_def

text \<open>
  C4. For every file, the parser returns the empty list of findings, and does not throw,
  on a text that is not JSON, on a text that decodes to a value without a \<^verbatim>\<open>comments\<close>
  property (\<^verbatim>\<open>null\<close> and the values that are not objects included), and on a text whose
  \<^verbatim>\<open>comments\<close> value is not an array. On every text at all it returns a list and does
  not throw.
\<close>

theorem parse_malformed_gives_empty:
  "(\<forall>e. jp raw = Inl e \<longrightarrow> parseAIResponse jp raw fl = Inr [])
 \<and> (\<forall>v. jp raw = Inr v \<and> own_prop v ''comments'' = None \<longrightarrow>
        parseAIResponse jp raw fl = Inr [])
 \<and> (\<forall>v c. jp raw = Inr v \<and> own_prop v ''comments'' = Some c \<and> \<not> isArray (Some c) \<longrightarrow>
        parseAIResponse jp raw fl = Inr [])
 \<and> (\<exists>fs. parseAIResponse jp raw fl = Inr fs)"
proof (intro conjI allI impI)
  fix e assume "jp raw = Inl e"
  thus "parseAIResponse jp raw fl = Inr []"
    by (simp add: parseAIResponse_def try_catch_def bindE_def)
next
  fix v assume a: "jp raw = Inr v \<and> own_prop v ''comments'' = None"
  hence "get_prop v ''comments'' = Inr None \<or> (\<exists>e. get_prop v ''comments'' = Inl e)"
    by (cases v) simp_all
  with a show "parseAIResponse jp raw fl = Inr []"
    by (auto simp: parse_decoded)
next
  fix v c assume a: "jp raw = Inr v \<and> own_prop v ''comments'' = Some c \<and> \<not> isArray (Some c)"
  hence "get_prop v ''comments'' = Inr (Some c)"
    by (cases v) simp_all
  with a show "parseAIResponse jp raw fl = Inr []"
    by (simp add: parse_decoded)
next
  show "\<exists>fs. parseAIResponse jp raw fl = Inr fs" by (rule parse_never_throws)
qed

text \<open>Witness for C4: a text that is not JSON, an object without \<^verbatim>\<open>comments\<close>, the text
  \<^verbatim>\<open>null\<close>, and an object whose \<^verbatim>\<open>comments\<close> is a string.\<close>

theorem parse_malformed_gives_empty_witness:
  "parseAIResponse sample_JSON_parse ''I could not review this fl.''
     (sample_file ''app.js'' ''modified'' 4 1) = Inr []
 \<and> parseAIResponse sample_JSON_parse ''{\"summary\":\"looks good\"}''
     (sample_file ''app.js'' ''modified'' 4 1) = Inr []
 \<and> parseAIResponse sample_JSON_parse ''null''
     (sample_file ''app.js'' ''modified'' 4 1) = Inr []
 \<and> parseAIResponse sample_JSON_parse ''{\"comments\":\"none\"}''
     (sample_file ''app.js'' ''modified'' 4 1) = Inr []"
proof -
  let ?f = "sample_file ''app.js'' ''modified'' 4 1"
  have a: "sample_JSON_parse ''I could not review this fl.''
             = Inl (SyntaxError ''Unexpected token'')"
    by (simp add: sample_JSON_parse_def two_comments_def six_comments_def)
  have b: "sample_JSON_parse ''{\"summary\":\"looks good\"}''
             = Inr (JObj [(''summary'', JStr ''looks good'')])
           \<and> own_prop (JObj [(''summary'', JStr ''looks good'')]) ''comments'' = None"
    by (simp add: sample_JSON_parse_def two_comments_def six_comments_def)
  have c: "sample_JSON_parse ''null'' = Inr JNull \<and> own_prop JNull ''comments'' = None"
    by (simp add: sample_JSON_parse_def two_comments_def six_comments_def)
  have d: "sample_JSON_parse ''{\"comments\":\"none\"}''
             = Inr (JObj [(''comments'', JStr ''none'')])
           \<and> own_prop (JObj [(''comments'', JStr ''none'')]) ''comments'' = Some (JStr ''none'')
           \<and> \<not> isArray (Some (JStr ''none''))"
    by (simp add: sample_JSON_parse_def two_comments_def six_comments_def)
  note t = parse_malformed_gives_empty[where jp=sample_JSON_parse and fl="?f"]
  have 1: "parseAIResponse sample_JSON_parse ''I could not review this fl.'' ?f = Inr []"
    by (rule t[THEN conjunct1, rule_format, OF a])
  have 2: "parseAIResponse sample_JSON_parse ''{\"summary\":\"looks good\"}'' ?f = Inr []"
    by (rule t[THEN conjunct2, THEN conjunct1, rule_format, OF b])
  have 3: "parseAIResponse sample_JSON_parse ''null'' ?f = Inr []"
    by (rule t[THEN conjunct2, THEN conjunct1, rule_format, OF c])
  have 4: "parseAIResponse sample_JSON_parse ''{\"comments\":\"none\"}'' ?f = Inr []"
    by (rule t[THEN conjunct2, THEN conjunct2, THEN conjunct1, rule_format, OF d])
  from 1 2 3 4 show ?thesis by (intro conjI)
qed

lemma or_else_cases:
  "or_else v d = (case v of None \<Rightarrow> JStr d | Some s \<Rightarrow> if truthy (Some s) then s else JStr d)"
  by (cases v) simp_all

lemma get_prop_own: "c \<noteq> JNull \<Longrightarrow> get_prop c k = Inr (own_prop c k)"
  by (cases c) simp_all

lemma comment_to_finding_ok:
  "c \<noteq> JNull \<Longrightarrow> comment_to_finding fl c = Inr (expected_finding fl c)"
  by (simp add: comment_to_finding_def expected_finding_def bindE_def get_prop_own or_else_cases)

lemma comment_to_finding_null:
  "comment_to_finding fl JNull = Inl (TypeError ''Cannot read properties of null'')"
  by (simp add: comment_to_finding_def bindE_def)

lemma array_map_all:
  "(\<forall>x \<in> set xs. f x = Inr (g x)) \<Longrightarrow> array_map f xs = Inr (map g xs)"
  by (induction xs) simp_all

lemma array_map_throw:
  "x \<in> set xs \<Longrightarrow> f x = Inl e \<Longrightarrow> \<exists>e'. array_map f xs = Inl e'"
proof (induction xs)
  case Nil
  then show ?case by simp
next
  case (Cons y ys)
  show ?case
  proof (cases "f y")
    case (Inl a)
    then show ?thesis by simp
  next
    case (Inr b)
    with Cons.prems have "x \<in> set ys" by auto
    from Cons.IH[OF this Cons.prems(2)] obtain e' where "array_map f ys = Inl e'" by blast
    with Inr show ?thesis by simp
  qed
qed

text \<open>
  C10, as amended. For every backend response that decodes to an object with a
  \<^verbatim>\<open>comments\<close> array of n elements, for any n: when no element is \<^verbatim>\<open>null\<close>, the parser
  returns exactly n findings, one per element in the order of the array, each with the
  path of the file, with the element's \<open>line\<close>, \<open>body\<close> and \<open>suggestion\<close>, and with
  \<open>severity\<close> and \<open>category\<close> equal to the decoded value when it is truthy and to
  \<^verbatim>\<open>info\<close> and \<^verbatim>\<open>general\<close> when it is missing or falsy (\<^verbatim>\<open>null\<close>, \<^verbatim>\<open>false\<close>, 0, the empty
  string); the parser enforces no cap. When an element is \<^verbatim>\<open>null\<close>, reading its
  property throws, the handler catches it, and the parser returns no finding at all.
\<close>

theorem parse_comments_array:
  assumes "jp raw = Inr v" and "own_prop v ''comments'' = Some (JArr cs)"
  shows "(JNull \<notin> set cs \<longrightarrow>
            parseAIResponse jp raw fl = Inr (map (expected_finding fl) cs))
       \<and> (JNull \<in> set cs \<longrightarrow> parseAIResponse jp raw fl = Inr [])"
proof -
  from assms(2) have g: "get_prop v ''comments'' = Inr (Some (JArr cs))"
    by (cases v) simp_all
  have p: "parseAIResponse jp raw fl =
     (case array_map (comment_to_finding fl) cs of Inl e \<Rightarrow> Inr [] | Inr fs \<Rightarrow> Inr fs)"
    using assms(1) by (simp add: parse_decoded[where jp=jp and raw=raw and v=v] g)
  have a: "parseAIResponse jp raw fl = Inr (map (expected_finding fl) cs)"
    if "JNull \<notin> set cs"
  proof -
    from that have "\<forall>c \<in> set cs. comment_to_finding fl c = Inr (expected_finding fl c)"
      using comment_to_finding_ok by metis
    hence "array_map (comment_to_finding fl) cs = Inr (map (expected_finding fl) cs)"
      by (rule array_map_all)
    thus ?thesis by (simp add: p)
  qed
  have b: "parseAIResponse jp raw fl = Inr []" if "JNull \<in> set cs"
  proof -
    from array_map_throw[where f="comment_to_finding fl", OF that comment_to_finding_null]
    obtain e' where "array_map (comment_to_finding fl) cs = Inl e'" by blast
    thus ?thesis by (simp add: p)
  qed
  from a b show ?thesis by blast
qed

text \<open>Witness for C10: six comments, more than the five the backend is asked for, the
  last with an empty severity; and two comments that carry a severity and a category.\<close>

theorem parse_comments_array_witness:
  "(case parseAIResponse sample_JSON_parse six_comments (sample_file ''app.js'' ''modified'' 4 1) of
      Inl e \<Rightarrow> False
    | Inr fs \<Rightarrow>
        map path fs = [''app.js'', ''app.js'', ''app.js'', ''app.js'', ''app.js'', ''app.js'']
      \<and> map line fs = [Some (JNum 1), Some (JNum 2), Some (JNum 3), Some (JNum 4),
                        Some (JNum 5), Some (JNum 6)]
      \<and> map severity fs = [JStr ''info'', JStr ''info'', JStr ''info'', JStr ''info'',
                            JStr ''info'', JStr ''info'']
      \<and> map category fs = [JStr ''general'', JStr ''general'', JStr ''general'',
                            JStr ''general'', JStr ''general'', JStr ''general''])
 \<and> (case parseAIResponse sample_JSON_parse two_comments (sample_file ''app.js'' ''modified'' 4 1) of
      Inl e \<Rightarrow> False
    | Inr fs \<Rightarrow>
        map severity fs = [JStr ''warning'', JStr ''info'']
      \<and> map category fs = [JStr ''general'', JStr ''bug'']
      \<and> map body fs = [Some (JStr ''Unused variable''), Some (JStr ''Off by one'')])"
proof -
  let ?f = "sample_file ''app.js'' ''modified'' 4 1"
  let ?six = "[JObj [(''line'', JNum 1)], JObj [(''line'', JNum 2)], JObj [(''line'', JNum 3)],
           JObj [(''line'', JNum 4)], JObj [(''line'', JNum 5)],
           JObj [(''line'', JNum 6), (''severity'', JStr [])]]"
  let ?two = "[JObj [(''line'', JNum 3), (''body'', JStr ''Unused variable''),
                 (''severity'', JStr ''warning'')],
           JObj [(''line'', JNum 7), (''body'', JStr ''Off by one''),
                 (''category'', JStr ''bug'')]]"
  have p6: "sample_JSON_parse six_comments = Inr (JObj [(''comments'', JArr ?six)])"
    by (simp add: sample_JSON_parse_def two_comments_def six_comments_def)
  have p2: "sample_JSON_parse two_comments = Inr (JObj [(''comments'', JArr ?two)])"
    by (simp add: sample_JSON_parse_def two_comments_def six_comments_def)
  have o6: "own_prop (JObj [(''comments'', JArr ?six)]) ''comments'' = Some (JArr ?six)"
    by simp
  have o2: "own_prop (JObj [(''comments'', JArr ?two)]) ''comments'' = Some (JArr ?two)"
    by simp
  have n6: "JNull \<notin> set ?six" by simp
  have n2: "JNull \<notin> set ?two" by simp
  from parse_comments_array[where jp=sample_JSON_parse and fl="?f", OF p6 o6] n6
  have r6: "parseAIResponse sample_JSON_parse six_comments ?f
              = Inr (map (expected_finding ?f) ?six)"
    by (rule conjunct1[THEN mp])
  from parse_comments_array[where jp=sample_JSON_parse and fl="?f", OF p2 o2] n2
  have r2: "parseAIResponse sample_JSON_parse two_comments ?f
              = Inr (map (expected_finding ?f) ?two)"
    by (rule conjunct1[THEN mp])
  show ?thesis
    unfolding r6 r2 by (simp add: expected_finding_def sample_file_def)
qed

text \<open>
  Counterexample to C10 as stated (exactly n findings for every array of n elements):
  the response \<^verbatim>\<open>{"comments":[null]}\<close> decodes to an array of one element, and the
  parser returns no finding.
\<close>

theorem null_comment_gives_no_findings:
  "sample_JSON_parse ''{\"comments\":[null]}'' = Inr (JObj [(''comments'', JArr [JNull])])
 \<and> length [JNull] = 1
 \<and> parseAIResponse sample_JSON_parse ''{\"comments\":[null]}''
       (sample_file ''app.js'' ''modified'' 4 1) = Inr []"
  by (simp add: parse_eval)

section \<open>Analysis of the files: properties\<close>

lemmas extension_eval =
  getFileExtension_def toLowerCase_def toLowerCase_char_def upperCaseChars_def
  lowerCaseChars_def binaryExtensions_def sample_file_def

text \<open>
  C9. For every file whose extension (from the last dot, in lower case) is in the list
  of binary extensions, or whose binary flag is set, the analysis of the file returns
  the empty list and makes no call: the backend is not invoked and no content is
  fetched.
\<close>

theorem binary_file_short_circuit:
  assumes "List.member binaryExtensions (getFileExtension (filename f)) \<or> binary f"
  shows "analyzeFile sv f ctx calls = (Inr [], calls)"
  using assms by (simp add: analyzeFile_def isBinaryFile_def)

text \<open>Witness for C9: an image whose extension is written in capitals, and a source
  file with the binary flag set.\<close>

theorem binary_file_short_circuit_witness:
  "analyzeFile sample_services (sample_file ''assets/Logo.PNG'' ''added'' 0 0) sample_context []
     = (Inr [], [])
 \<and> analyzeFile sample_services
       ((sample_file ''data/blob.py'' ''modified'' 0 0)\<lparr>binary := True\<rparr>) sample_context []
     = (Inr [], [])"
proof -
  have a: "List.member binaryExtensions
             (getFileExtension (filename (sample_file ''assets/Logo.PNG'' ''added'' 0 0)))
           \<or> binary (sample_file ''assets/Logo.PNG'' ''added'' 0 0)"
    by (simp add: extension_eval)
  have b: "List.member binaryExtensions
             (getFileExtension (filename ((sample_file ''data/blob.py'' ''modified'' 0 0)\<lparr>binary := True\<rparr>)))
           \<or> binary ((sample_file ''data/blob.py'' ''modified'' 0 0)\<lparr>binary := True\<rparr>)"
    by simp
  from binary_file_short_circuit[OF a] binary_file_short_circuit[OF b]
  show ?thesis by (intro conjI)
qed

lemma backend_calls_append:
  "backend_calls (xs @ ys) = backend_calls xs @ backend_calls ys"
  by (induction xs rule: backend_calls.induct) simp_all

lemma getFileData_calls:
  "\<exists>fd. fst (getFileData sv f ctx calls) = Some fd
      \<and> backend_calls (snd (getFileData sv f ctx calls)) = backend_calls calls"
  by (simp add: getFileData_def Let_def backend_calls_append)

lemma analyzeFile_backend_calls:
  "backend_calls (snd (analyzeFile sv f ctx calls)) =
     backend_calls calls @ (if isBinaryFile f then [] else [filename f])"
proof (cases "isBinaryFile f")
  case True
  then show ?thesis by (simp add: analyzeFile_def)
next
  case False
  from getFileData_calls[of sv f ctx calls] obtain fd where
    fd: "fst (getFileData sv f ctx calls) = Some fd"
    and bc: "backend_calls (snd (getFileData sv f ctx calls)) = backend_calls calls"
    by blast
  obtain c1 where g: "getFileData sv f ctx calls = (Some fd, c1)"
    using fd by (cases "getFileData sv f ctx calls") simp
  with bc have bc1: "backend_calls c1 = backend_calls calls" by simp
  show ?thesis
    using False g bc1
    by (simp add: analyzeFile_def Let_def backend_calls_append buildAnalysisPrompt_def
             split: sum.splits)
qed

lemma loop_results:
  "fst (analyzeFiles_loop sv ctx files results calls) =
     results @ concat (map contribution (file_outcomes sv ctx files calls))"
proof (induction files arbitrary: results calls)
  case Nil
  then show ?case by simp
next
  case (Cons f files)
  obtain r c1 where a: "analyzeFile sv f ctx calls = (r, c1)"
    by (cases "analyzeFile sv f ctx calls")
  show ?case
  proof (cases r)
    case (Inl e)
    with a Cons.IH[of results c1] show ?thesis by simp
  next
    case (Inr analysis)
    with a Cons.IH[of "results @ analysis" c1] Cons.IH[of results c1]
    show ?thesis by simp
  qed
qed

lemma loop_backend_calls:
  "backend_calls (snd (analyzeFiles_loop sv ctx files results calls)) =
     backend_calls calls @ map filename (filter (\<lambda>f. \<not> isBinaryFile f) files)"
proof (induction files arbitrary: results calls)
  case Nil
  then show ?case by simp
next
  case (Cons f files)
  obtain r c1 where a: "analyzeFile sv f ctx calls = (r, c1)"
    by (cases "analyzeFile sv f ctx calls")
  from analyzeFile_backend_calls[of sv f ctx calls] a
  have b: "backend_calls c1 = backend_calls calls @ (if isBinaryFile f then [] else [filename f])"
    by simp
  show ?case
  proof (cases r)
    case (Inl e)
    with a b Cons.IH[of results c1] show ?thesis by simp
  next
    case (Inr analysis)
    with a b Cons.IH[of "results @ analysis" c1] Cons.IH[of results c1]
    show ?thesis by simp
  qed
qed

lemma length_file_outcomes: "length (file_outcomes sv ctx files calls) = length files"
  by (induction files arbitrary: calls) simp_all

text \<open>
  C5. For every list of files the batch analysis does not throw, and its result is the
  concatenation, in the order of the files, of what each file's analysis contributes:
  its findings, or nothing when it threw. Every file of the list is analysed, whatever
  happened to the files before it: there is one outcome per file, and the backend is
  called once for each file that is not binary, in the order of the files.
\<close>

theorem analyzeFiles_tolerates_failures:
  "fst (analyzeFiles sv files ctx calls) =
     Inr (concat (map contribution (file_outcomes sv ctx files calls)))
 \<and> length (file_outcomes sv ctx files calls) = length files
 \<and> backend_calls (snd (analyzeFiles sv files ctx calls)) =
     backend_calls calls @ map filename (filter (\<lambda>f. \<not> isBinaryFile f) files)"
proof -
  obtain rs c1 where l: "analyzeFiles_loop sv ctx files [] calls = (rs, c1)"
    by (cases "analyzeFiles_loop sv ctx files [] calls")
  from loop_results[of sv ctx files "[]" calls] l
  have a: "rs = concat (map contribution (file_outcomes sv ctx files calls))" by simp
  from loop_backend_calls[of sv ctx files "[]" calls] l
  have b: "backend_calls c1 =
     backend_calls calls @ map filename (filter (\<lambda>f. \<not> isBinaryFile f) files)" by simp
  from l a b length_file_outcomes show ?thesis
    by (simp add: analyzeFiles_def)
qed

lemmas analysis_eval =
  analyzeFile_def isBinaryFile_def getFileData_def buildAnalysisPrompt_def
  getLanguageFromExtension_def languageMap_def extension_eval
  sample_services_def sample_context_def parse_eval

lemma main_py_outcome:
  "analyzeFile sample_services (sample_file ''main.py'' ''modified'' 10 2) sample_context calls
     = (Inl (Error ''timeout of 30000ms exceeded''),
        calls @ [GetFileContent (Some ''octo'') (Some ''demo'') ''main.py'' ''HEAD'',
                 AnalyzeCode (buildAnalysisPrompt (sample_file ''main.py'' ''modified'' 10 2)
                    \<lparr>content = None, fd_patch = Some ''@@ -1,3 +1,4 @@'', isNewFile = False\<rparr>
                    sample_context)])"
  by (simp add: analysis_eval)

lemma app_js_outcome:
  "analyzeFile sample_services (sample_file ''app.js'' ''modified'' 4 1) sample_context calls
     = (Inr app_js_findings,
        calls @ [GetFileContent (Some ''octo'') (Some ''demo'') ''app.js'' ''HEAD'',
                 AnalyzeCode (buildAnalysisPrompt (sample_file ''app.js'' ''modified'' 4 1)
                    \<lparr>content = None, fd_patch = Some ''@@ -1,3 +1,4 @@'', isNewFile = False\<rparr>
                    sample_context)])"
  by (simp add: analysis_eval app_js_findings_def)

text \<open>Witness for C5: the backend times out on \<^verbatim>\<open>main.py\<close>; the file \<^verbatim>\<open>app.js\<close> after it is
  still analysed, and the batch returns its two findings.\<close>

theorem analyzeFiles_tolerates_failures_witness:
  "fst (analyzeFiles sample_services
          [sample_file ''main.py'' ''modified'' 10 2, sample_file ''app.js'' ''modified'' 4 1]
          sample_context []) = Inr app_js_findings
 \<and> backend_calls (snd (analyzeFiles sample_services
          [sample_file ''main.py'' ''modified'' 10 2, sample_file ''app.js'' ''modified'' 4 1]
          sample_context [])) = [''main.py'', ''app.js'']"
proof -
  let ?files = "[sample_file ''main.py'' ''modified'' 10 2, sample_file ''app.js'' ''modified'' 4 1]"
  have o: "file_outcomes sample_services sample_context ?files []
             = [Inl (Error ''timeout of 30000ms exceeded''), Inr app_js_findings]"
    by (simp add: main_py_outcome app_js_outcome)
  have b: "filter (\<lambda>f. \<not> isBinaryFile f) ?files = ?files"
    by (simp add: isBinaryFile_def extension_eval)
  have n: "map filename ?files = [''main.py'', ''app.js'']"
    by (simp add: sample_file_def)
  from analyzeFiles_tolerates_failures[of sample_services ?files sample_context "[]"]
  show ?thesis unfolding o b n by simp
qed

section \<open>Dispatch of the pull request event: properties\<close>

text \<open>
  C2 fails on the code. The table of \<^verbatim>\<open>WebhookHandler\<close> holds under \<^verbatim>\<open>pull_request\<close> the
  object \<^verbatim>\<open>pullRequestHandler\<close> and not its method \<^verbatim>\<open>handle\<close>, so for every payload the
  call \<^verbatim>\<open>handler(payload, metadata)\<close> throws a \<^verbatim>\<open>TypeError\<close>, which is thrown again: no
  file is fetched, the backend is not called, nothing is published, and the sender of
  the webhook gets the status 500.
\<close>

theorem pull_request_event_not_dispatched:
  "WebhookHandler_handle ''pull_request'' pl md calls
     = (Inl (TypeError ''handler is not a function''), calls)
 \<and> webhook_route ''pull_request'' pl md calls
     = (Respond 500 ''Webhook processing failed'', calls)"
  by (simp add: webhook_route_def WebhookHandler_handle_def handlers_def)

text \<open>The event of C2 (action \<^verbatim>\<open>opened\<close>, not a draft, a human author): status 500 and no
  call.\<close>

theorem pull_request_event_not_dispatched_witness:
  "webhook_route ''pull_request'' sample_payload sample_metadata []
     = (Respond 500 ''Webhook processing failed'', [])"
  using pull_request_event_not_dispatched[of sample_payload sample_metadata "[]"]
  by (rule conjunct2)

text \<open>
  The method \<^verbatim>\<open>PullRequestHandler.handle\<close> itself, called on the same event, does what
  C2 describes: it lists the files, keeps \<^verbatim>\<open>app.js\<close>, calls the backend once and
  publishes the findings the backend returned.
\<close>

lemma pipeline_called_directly:
  "PullRequestHandler_handle sample_services None None sample_payload sample_metadata []
     = (Inr (),
        [GetPullRequestFiles ''octo'' ''demo'' 7,
         GetFileContent (Some ''octo'') (Some ''demo'') ''app.js'' ''HEAD'',
         AnalyzeCode (buildAnalysisPrompt (sample_file ''app.js'' ''modified'' 4 1)
            \<lparr>content = None, fd_patch = Some ''@@ -1,3 +1,4 @@'', isNewFile = False\<rparr>
            sample_context),
         PostReviewComments ''octo'' ''demo'' 7 app_js_findings])"
proof -
  have f: "filterReviewableFiles None None [sample_file ''app.js'' ''modified'' 4 1]
             = [sample_file ''app.js'' ''modified'' 4 1]"
    by (simp add: triage_eval)
  have c: "\<lparr>c_repository = ''octo/demo'', c_pr_number = 7, c_pr_title = ''Add parser'',
            c_pr_description = None\<rparr> = sample_context"
    by (simp add: sample_context_def)
  have a: "analyzeFiles sample_services [sample_file ''app.js'' ''modified'' 4 1] sample_context
             [GetPullRequestFiles ''octo'' ''demo'' 7]
           = (Inr app_js_findings,
              [GetPullRequestFiles ''octo'' ''demo'' 7,
               GetFileContent (Some ''octo'') (Some ''demo'') ''app.js'' ''HEAD'',
               AnalyzeCode (buildAnalysisPrompt (sample_file ''app.js'' ''modified'' 4 1)
                  \<lparr>content = None, fd_patch = Some ''@@ -1,3 +1,4 @@'', isNewFile = False\<rparr>
                  sample_context)])"
    by (simp add: analyzeFiles_def app_js_outcome app_js_findings_def)
  have g: "getPullRequestFiles sample_services [] ''octo'' ''demo'' 7
             = Inr [sample_file ''app.js'' ''modified'' 4 1]"
       "postReviewComments sample_services
          [GetPullRequestFiles ''octo'' ''demo'' 7,
               GetFileContent (Some ''octo'') (Some ''demo'') ''app.js'' ''HEAD'',
               AnalyzeCode (buildAnalysisPrompt (sample_file ''app.js'' ''modified'' 4 1)
                  \<lparr>content = None, fd_patch = Some ''@@ -1,3 +1,4 @@'', isNewFile = False\<rparr>
                  sample_context)] ''octo'' ''demo'' 7 app_js_findings = Inr ()"
    by (simp_all add: sample_services_def)
  show ?thesis
    by (simp add: PullRequestHandler_handle_def sample_payload_def Let_def g f c a)
qed

end
